theory Spec2Isabelle
  imports Complex_Main
begin

unbundle bit_operations_syntax

text \<open>
  A model of the services of the driver tracking app: the trip location service with its
  queue of pending updates, the Haversine distance, the mock trip service, the two retry
  loops, and the authentication service with its token check. Every function of the model
  follows one function of the source and keeps its name. What the source gets from outside
  (Firestore, the local storage, the server, the clock) is an argument of the model; an
  exception is a value \<open>Inl\<close> of a sum type.
\<close>

section \<open>Common data\<close>

text \<open>
  A JavaScript string is a sequence of UTF-16 code units. It is modelled as a list of
  natural numbers, one per code unit; \<open>js\<close> turns a HOL string literal into that form.
\<close>

type_synonym jsstring = "nat list"

definition js :: "string \<Rightarrow> jsstring" where
  "js s = map of_char s"

text \<open>
  Everything the services throw. \<open>Error\<close> carries the message of a
  \<^verbatim>\<open>new Error(message)\<close>; the other constructors are the errors raised by the runtime and
  by the libraries the services call.
\<close>

datatype error =
    Error jsstring
  | TypeError
  | SyntaxError
  | FirestoreError
  | StorageError
  | NetworkError

section \<open>Trip location service (class TripLocationService)\<close>

text \<open>The \<^verbatim>\<open>Coordinate\<close> interface of the trip location service.\<close>

record Coordinate =
  latitude :: real
  longitude :: real
  timestamp :: real
  accuracy :: "real option"
  speed :: "real option"
  heading :: "real option"

text \<open>
  Firestore is the environment of the service. Each request either succeeds or is rejected;
  which one is decided by the environment, so the model carries the outcome of the k-th
  request as \<open>succeeds k\<close> and counts the requests issued so far. The writes that went through
  are kept in a log, oldest first.
\<close>

datatype fs_write =
    SetTrip jsstring
  | UpdateLocation jsstring Coordinate
  | AddHistory jsstring Coordinate
  | CompleteTrip jsstring

record Firestore =
  succeeds :: "nat \<Rightarrow> bool"
  requests :: nat
  written :: "fs_write list"

definition request :: "fs_write \<Rightarrow> Firestore \<Rightarrow> bool \<times> Firestore" where
  "request w fs =
     (if succeeds fs (requests fs)
      then (True, fs\<lparr>requests := Suc (requests fs), written := written fs @ [w]\<rparr>)
      else (False, fs\<lparr>requests := Suc (requests fs)\<rparr>))"

text \<open>The two private fields of \<^verbatim>\<open>TripLocationService\<close>.\<close>

record TripLocationService =
  pendingUpdates :: "Coordinate list"
  currentTripId :: "jsstring option"

definition new_TripLocationService :: TripLocationService where
  "new_TripLocationService = \<lparr>pendingUpdates = [], currentTripId = None\<rparr>"

type_synonym tl_state = "TripLocationService \<times> Firestore"

text \<open>
  \<^verbatim>\<open>initializeTripLocation\<close>: sets the trip document, then records the trip id. When the
  write is rejected the id is not recorded and a new error is thrown.
\<close>

definition initializeTripLocation :: "jsstring \<Rightarrow> tl_state \<Rightarrow> (error + unit) \<times> tl_state" where
  "initializeTripLocation tripId st =
     (case st of (svc, fs) \<Rightarrow>
        (case request (SetTrip tripId) fs of
           (True, fs') \<Rightarrow> (Inr (), (svc\<lparr>currentTripId := Some tripId\<rparr>, fs'))
         | (False, fs') \<Rightarrow>
             (Inl (Error (js ''Failed to initialize trip location'')), (svc, fs'))))"

text \<open>
  \<^verbatim>\<open>addToHistory\<close>: adds the coordinate to the history subcollection; a rejected write is
  logged and swallowed.
\<close>

definition addToHistory :: "jsstring \<Rightarrow> Coordinate \<Rightarrow> Firestore \<Rightarrow> Firestore" where
  "addToHistory tripId coordinate fs = snd (request (AddHistory tripId coordinate) fs)"

text \<open>
  \<^verbatim>\<open>updateCurrentLocation\<close>: updates the current location of the trip document and then
  appends to the history. When the update is rejected, the catch block pushes the coordinate
  onto \<^verbatim>\<open>pendingUpdates\<close> and rethrows.
\<close>

definition updateCurrentLocation ::
  "jsstring \<Rightarrow> Coordinate \<Rightarrow> tl_state \<Rightarrow> (error + unit) \<times> tl_state" where
  "updateCurrentLocation tripId coordinate st =
     (case st of (svc, fs) \<Rightarrow>
        (case request (UpdateLocation tripId coordinate) fs of
           (True, fs') \<Rightarrow> (Inr (), (svc, addToHistory tripId coordinate fs'))
         | (False, fs') \<Rightarrow>
             (Inl FirestoreError,
              (svc\<lparr>pendingUpdates := pendingUpdates svc @ [coordinate]\<rparr>, fs'))))"

text \<open>
  \<^verbatim>\<open>completeTripLocation\<close>: marks the trip completed and forgets the trip id; a rejected
  write is rethrown and the id is kept.
\<close>

definition completeTripLocation :: "jsstring \<Rightarrow> tl_state \<Rightarrow> (error + unit) \<times> tl_state" where
  "completeTripLocation tripId st =
     (case st of (svc, fs) \<Rightarrow>
        (case request (CompleteTrip tripId) fs of
           (True, fs') \<Rightarrow> (Inr (), (svc\<lparr>currentTripId := None\<rparr>, fs'))
         | (False, fs') \<Rightarrow> (Inl FirestoreError, (svc, fs'))))"

definition setCurrentTripId :: "jsstring \<Rightarrow> TripLocationService \<Rightarrow> TripLocationService" where
  "setCurrentTripId tripId svc = svc\<lparr>currentTripId := Some tripId\<rparr>"

definition getCurrentTripId :: "TripLocationService \<Rightarrow> jsstring option" where
  "getCurrentTripId svc = currentTripId svc"

definition getPendingUpdatesCount :: "TripLocationService \<Rightarrow> nat" where
  "getPendingUpdatesCount svc = length (pendingUpdates svc)"

text \<open>
  The loop of \<^verbatim>\<open>retryPendingUpdates\<close> over the copied array. Each iteration reads
  \<^verbatim>\<open>this.currentTripId\<close> again and calls \<^verbatim>\<open>updateCurrentLocation\<close>; when that throws, the
  catch block of the loop pushes the coordinate onto \<^verbatim>\<open>pendingUpdates\<close>. The guard of
  \<^verbatim>\<open>retryPendingUpdates\<close> has excluded a missing trip id, and nothing clears the field
  while a call runs alone; \<open>tripIdArg\<close> passes a missing id on as the empty document path.
\<close>

definition tripIdArg :: "jsstring option \<Rightarrow> jsstring" where
  "tripIdArg t = (case t of Some tripId \<Rightarrow> tripId | None \<Rightarrow> [])"

fun retryLoop :: "Coordinate list \<Rightarrow> tl_state \<Rightarrow> tl_state" where
  "retryLoop [] st = st"
| "retryLoop (coordinate # updates) st =
     (case updateCurrentLocation (tripIdArg (currentTripId (fst st))) coordinate st of
        (Inr _, st') \<Rightarrow> retryLoop updates st'
      | (Inl _, (svc', fs')) \<Rightarrow>
          retryLoop updates (svc'\<lparr>pendingUpdates := pendingUpdates svc' @ [coordinate]\<rparr>, fs'))"

text \<open>
  \<^verbatim>\<open>!this.currentTripId\<close> holds for \<^verbatim>\<open>null\<close> and for the empty string.
\<close>

definition noTripId :: "jsstring option \<Rightarrow> bool" where
  "noTripId t = (case t of None \<Rightarrow> True | Some s \<Rightarrow> s = [])"

definition retryPendingUpdates :: "tl_state \<Rightarrow> tl_state" where
  "retryPendingUpdates st =
     (case st of (svc, fs) \<Rightarrow>
        if length (pendingUpdates svc) = 0 \<or> noTripId (currentTripId svc) then st
        else retryLoop (pendingUpdates svc) (svc\<lparr>pendingUpdates := []\<rparr>, fs))"

text \<open>
  The caller of the service (the location callback of the active-trip screen) calls
  \<^verbatim>\<open>updateCurrentLocation\<close> once per position and catches what it throws.
  \<open>locationUpdates\<close> is a run of such calls.
\<close>

fun locationUpdates :: "(jsstring \<times> Coordinate) list \<Rightarrow> tl_state \<Rightarrow> tl_state" where
  "locationUpdates [] st = st"
| "locationUpdates ((tripId, coordinate) # rest) st =
     locationUpdates rest (snd (updateCurrentLocation tripId coordinate st))"

section \<open>Haversine distance\<close>

text \<open>The \<^verbatim>\<open>Location\<close> interface of the shared types.\<close>

record Location =
  latitude :: real
  longitude :: real
  timestamp :: real
  accuracy :: "real option"
  speed :: "real option"
  heading :: "real option"
  altitude :: "real option"

text \<open>
  JavaScript numbers are modelled as real numbers: the arithmetic below is exact, where
  the program rounds every operation to a double.
\<close>

definition toRad :: "real \<Rightarrow> real" where
  "toRad v = (v * pi) / 180"

text \<open>\<^verbatim>\<open>Math.atan2(y, x)\<close>: the angle of the point \<open>(x, y)\<close>, in \<open>(-\<pi>, \<pi>]\<close>.\<close>

definition atan2 :: "real \<Rightarrow> real \<Rightarrow> real" where
  "atan2 y x =
     (if 0 < x then arctan (y / x)
      else if x < 0 then (if 0 \<le> y then arctan (y / x) + pi else arctan (y / x) - pi)
      else if 0 < y then pi / 2
      else if y < 0 then - (pi / 2)
      else 0)"

text \<open>
  \<^verbatim>\<open>calculateDistance\<close> of \<^verbatim>\<open>LocationService\<close> and of \<^verbatim>\<open>LocationEmulatorService\<close> (the two
  bodies are the same text).
\<close>

definition calculateDistance :: "Location \<Rightarrow> Location \<Rightarrow> real" where
  "calculateDistance point1 point2 =
     (let R = 6371;
          dLat = toRad (latitude point2 - latitude point1);
          dLon = toRad (longitude point2 - longitude point1);
          lat1 = toRad (latitude point1);
          lat2 = toRad (latitude point2);
          a = sin (dLat / 2) * sin (dLat / 2) +
              sin (dLon / 2) * sin (dLon / 2) * cos lat1 * cos lat2;
          c = 2 * atan2 (sqrt a) (sqrt (1 - a))
      in R * c)"

text \<open>\<^verbatim>\<open>haversineDistance\<close> of \<^verbatim>\<open>TripService\<close> and of \<^verbatim>\<open>MockTripService\<close>.\<close>

definition haversineDistance :: "Location \<Rightarrow> Location \<Rightarrow> real" where
  "haversineDistance point1 point2 =
     (let R = 6371;
          dLat = toRad (latitude point2 - latitude point1);
          dLon = toRad (longitude point2 - longitude point1);
          lat1 = toRad (latitude point1);
          lat2 = toRad (latitude point2);
          a = sin (dLat / 2) * sin (dLat / 2) +
              sin (dLon / 2) * sin (dLon / 2) * cos lat1 * cos lat2;
          c = 2 * atan2 (sqrt a) (sqrt (1 - a))
      in R * c)"



section \<open>Mock trip service (class MockTripService)\<close>

datatype TripStatus = pending | active | completed | cancelled




text \<open>
  The decimal text of an integer, as a template literal prints \<^verbatim>\<open>Date.now()\<close>.
\<close>

function digitsOf :: "int \<Rightarrow> jsstring" where
  "digitsOf n = (if n < 10 then [nat (48 + n)] else digitsOf (n div 10) @ [nat (48 + n mod 10)])"
  by pat_completeness auto
termination
  by (relation "measure nat") auto

declare digitsOf.simps [simp del]

definition numberToString :: "int \<Rightarrow> jsstring" where
  "numberToString n = (if n < 0 then 45 # digitsOf (- n) else digitsOf n)"







section \<open>Retrying an operation (utils/errorHandler)\<close>






section \<open>Runtime initialisation (components/RuntimeSafeWrapper)\<close>




section \<open>Authentication service (class ApiAuthService)\<close>

subsection \<open>Strings\<close>

text \<open>
  \<^verbatim>\<open>str.charAt(i)\<close> is the string of the one code unit at \<open>i\<close>, and the empty string when
  \<open>i\<close> is out of range. \<^verbatim>\<open>s.indexOf(t)\<close> is the first position where \<open>t\<close> occurs in \<open>s\<close>,
  or -1; the empty string occurs at position 0.
\<close>

definition charAt :: "jsstring \<Rightarrow> nat \<Rightarrow> jsstring" where
  "charAt str i = (if i < length str then [str ! i] else [])"

fun indexOfFrom :: "jsstring \<Rightarrow> jsstring \<Rightarrow> int \<Rightarrow> int" where
  "indexOfFrom [] t k = (if t = [] then k else - 1)"
| "indexOfFrom (c # s) t k =
     (if take (length t) (c # s) = t then k else indexOfFrom s t (k + 1))"

definition indexOf :: "jsstring \<Rightarrow> jsstring \<Rightarrow> int" where
  "indexOf s t = indexOfFrom s t 0"

text \<open>\<^verbatim>\<open>s.split(sep)\<close> for a separator of one code unit.\<close>

fun split :: "nat \<Rightarrow> jsstring \<Rightarrow> jsstring list" where
  "split sep [] = [[]]"
| "split sep (c # cs) =
     (if c = sep then [] # split sep cs
      else (case split sep cs of
              p # ps \<Rightarrow> (c # p) # ps
            | [] \<Rightarrow> [[c]]))"

text \<open>\<^verbatim>\<open>s.replace(/x/g, y)\<close> for single code units \<open>x\<close> and \<open>y\<close>.\<close>

definition replaceAll :: "nat \<Rightarrow> nat \<Rightarrow> jsstring \<Rightarrow> jsstring" where
  "replaceAll x y s = map (\<lambda>c. if c = x then y else c) s"

subsection \<open>base64Decode\<close>

definition chars :: jsstring where
  "chars = js ''ABCDEFGHIJKLMNOPQRSTUVWXYZabcdefghijklmnopqrstuvwxyz0123456789+/''"

text \<open>The first loop: \<^verbatim>\<open>while (str.length % 4) str += '='\<close>.\<close>

function padLoop :: "jsstring \<Rightarrow> jsstring" where
  "padLoop str = (if length str mod 4 \<noteq> 0 then padLoop (str @ [61]) else str)"
  by pat_completeness auto
termination
proof (relation "measure (\<lambda>str. (4 - length str mod 4) mod 4)")
  show "wf (measure (\<lambda>str::jsstring. (4 - length str mod 4) mod 4))"
    by simp
next
  fix str :: jsstring
  assume nz: "length str mod 4 \<noteq> 0"
  have lt: "length str mod 4 < 4"
    by simp
  show "(str @ [61], str) \<in> measure (\<lambda>str. (4 - length str mod 4) mod 4)"
    using nz by (simp add: mod_Suc) (use lt in linarith)
qed

declare padLoop.simps [simp del]

text \<open>
  The second loop reads four code units per round. The bitwise operators of JavaScript
  work on 32-bit integers; the four indices are between -1 and 63, so nothing here leaves
  that range, and the model computes on the integers. \<^verbatim>\<open>>>\<close> keeps the sign.
\<close>

function decodeLoop :: "jsstring \<Rightarrow> nat \<Rightarrow> jsstring \<Rightarrow> jsstring" where
  "decodeLoop str i result =
     (if i < length str then
        (let a = indexOf chars (charAt str i);
             b = indexOf chars (charAt str (i + 1));
             c = indexOf chars (charAt str (i + 2));
             d = indexOf chars (charAt str (i + 3));
             bitmap = (push_bit 18 a) OR (push_bit 12 b) OR (push_bit 6 c) OR d;
             result1 = result @ [nat ((drop_bit 16 bitmap) AND 255)];
             result2 = (if c \<noteq> 64 then result1 @ [nat ((drop_bit 8 bitmap) AND 255)]
                        else result1);
             result3 = (if d \<noteq> 64 then result2 @ [nat (bitmap AND 255)] else result2)
         in decodeLoop str (i + 4) result3)
      else result)"
  by pat_completeness auto
termination
  by (relation "measure (\<lambda>(str, i, result). length str - i)") auto

declare decodeLoop.simps [simp del]

text \<open>
  \<^verbatim>\<open>base64Decode\<close>. The body is wrapped in a try block that returns the empty string; no
  operation of the body throws, so the model has no such branch.
\<close>

definition base64Decode :: "jsstring \<Rightarrow> jsstring" where
  "base64Decode str = decodeLoop (padLoop str) 0 []"

subsection \<open>JSON\<close>

text \<open>
  The values \<^verbatim>\<open>JSON.parse\<close> returns. Numbers are real numbers; an object is the list of
  its members in the order of the text.
\<close>

datatype json =
    JNull
  | JBool bool
  | JNumber real
  | JString jsstring
  | JArray "json list"
  | JObject "(jsstring \<times> json) list"

text \<open>
  \<^verbatim>\<open>JSON.parse\<close> is part of the language, not of the repository. The model follows the
  JSON grammar of ECMA-262: white space is tab, line feed, carriage return and space; a
  string has no raw control character and the escapes \<^verbatim>\<open>\" \\ \/ \b \f \n \r \t \uXXXX\<close>;
  a number is \<^verbatim>\<open>-? (0 | [1-9][0-9]*) (.[0-9]+)? ([eE][+-]?[0-9]+)?\<close>.
\<close>

definition is_ws :: "nat \<Rightarrow> bool" where
  "is_ws c = (c = 9 \<or> c = 10 \<or> c = 13 \<or> c = 32)"

definition is_digit :: "nat \<Rightarrow> bool" where
  "is_digit c = (48 \<le> c \<and> c \<le> 57)"

definition skip_ws :: "jsstring \<Rightarrow> jsstring" where
  "skip_ws s = dropWhile is_ws s"

definition hexval :: "nat \<Rightarrow> nat option" where
  "hexval c =
     (if 48 \<le> c \<and> c \<le> 57 then Some (c - 48)
      else if 65 \<le> c \<and> c \<le> 70 then Some (c - 55)
      else if 97 \<le> c \<and> c \<le> 102 then Some (c - 87)
      else None)"

definition hex4 :: "nat \<Rightarrow> nat \<Rightarrow> nat \<Rightarrow> nat \<Rightarrow> nat option" where
  "hex4 h1 h2 h3 h4 =
     (case (hexval h1, hexval h2, hexval h3, hexval h4) of
        (Some a, Some b, Some c, Some d) \<Rightarrow> Some (((a * 16 + b) * 16 + c) * 16 + d)
      | _ \<Rightarrow> None)"

definition escape_char :: "nat \<Rightarrow> nat option" where
  "escape_char e =
     (if e = 34 then Some 34
      else if e = 92 then Some 92
      else if e = 47 then Some 47
      else if e = 98 then Some 8
      else if e = 102 then Some 12
      else if e = 110 then Some 10
      else if e = 114 then Some 13
      else if e = 116 then Some 9
      else None)"

definition cons_fst :: "'a \<Rightarrow> ('a list \<times> 'b) option \<Rightarrow> ('a list \<times> 'b) option" where
  "cons_fst x r = (case r of None \<Rightarrow> None | Some (xs, rest) \<Rightarrow> Some (x # xs, rest))"

text \<open>The characters of a string after the opening quote, up to the closing quote.\<close>

fun string_chars :: "jsstring \<Rightarrow> (jsstring \<times> jsstring) option" where
  "string_chars [] = None"
| "string_chars (c # cs) =
     (if c = 34 then Some ([], cs)
      else if c = 92 then
        (case cs of
           [] \<Rightarrow> None
         | e # r \<Rightarrow>
             if e = 117 then
               (case r of
                  h1 # h2 # h3 # h4 # r' \<Rightarrow>
                    (case hex4 h1 h2 h3 h4 of
                       None \<Rightarrow> None
                     | Some u \<Rightarrow> cons_fst u (string_chars r'))
                | _ \<Rightarrow> None)
             else
               (case escape_char e of
                  None \<Rightarrow> None
                | Some x \<Rightarrow> cons_fst x (string_chars r)))
      else if c < 32 then None
      else cons_fst c (string_chars cs))"

definition digitsValue :: "jsstring \<Rightarrow> int" where
  "digitsValue ds = foldl (\<lambda>acc d. 10 * acc + (int d - 48)) 0 ds"

definition scale10 :: "real \<Rightarrow> int \<Rightarrow> real" where
  "scale10 m k = (if 0 \<le> k then m * 10 ^ nat k else m / 10 ^ nat (- k))"

text \<open>The three parts of a number: integer part, fraction, exponent.\<close>

definition int_part :: "jsstring \<Rightarrow> (jsstring \<times> jsstring) option" where
  "int_part s =
     (case s of
        [] \<Rightarrow> None
      | c # cs \<Rightarrow>
          if c = 48 then Some ([48], cs)
          else if is_digit c then Some (takeWhile is_digit s, dropWhile is_digit s)
          else None)"

definition frac_part :: "jsstring \<Rightarrow> (jsstring \<times> jsstring) option" where
  "frac_part s =
     (case s of
        [] \<Rightarrow> Some ([], s)
      | c # cs \<Rightarrow>
          if c = 46 then
            (if takeWhile is_digit cs = [] then None
             else Some (takeWhile is_digit cs, dropWhile is_digit cs))
          else Some ([], s))"

definition exp_digits :: "bool \<Rightarrow> jsstring \<Rightarrow> (int \<times> jsstring) option" where
  "exp_digits neg s =
     (if takeWhile is_digit s = [] then None
      else Some ((if neg then - 1 else 1) * digitsValue (takeWhile is_digit s),
                 dropWhile is_digit s))"

definition exp_part :: "jsstring \<Rightarrow> (int \<times> jsstring) option" where
  "exp_part s =
     (case s of
        [] \<Rightarrow> Some (0, s)
      | c # cs \<Rightarrow>
          if c = 101 \<or> c = 69 then
            (case cs of
               [] \<Rightarrow> None
             | g # gs \<Rightarrow>
                 if g = 43 then exp_digits False gs
                 else if g = 45 then exp_digits True gs
                 else exp_digits False cs)
          else Some (0, s))"

definition number_from :: "bool \<Rightarrow> jsstring \<Rightarrow> (real \<times> jsstring) option" where
  "number_from neg s =
     (case int_part s of
        None \<Rightarrow> None
      | Some (ip, s1) \<Rightarrow>
          (case frac_part s1 of
             None \<Rightarrow> None
           | Some (fp, s2) \<Rightarrow>
               (case exp_part s2 of
                  None \<Rightarrow> None
                | Some (e, s3) \<Rightarrow>
                    Some ((if neg then - 1 else 1) *
                            scale10 (of_int (digitsValue (ip @ fp))) (e - int (length fp)),
                          s3))))"

definition parse_number :: "jsstring \<Rightarrow> (real \<times> jsstring) option" where
  "parse_number s =
     (case s of
        [] \<Rightarrow> None
      | c # cs \<Rightarrow> if c = 45 then number_from True cs else number_from False s)"

definition map_fst_option :: "('a \<Rightarrow> 'c) \<Rightarrow> ('a \<times> 'b) option \<Rightarrow> ('c \<times> 'b) option" where
  "map_fst_option f r = (case r of None \<Rightarrow> None | Some (x, rest) \<Rightarrow> Some (f x, rest))"

definition literal :: "jsstring \<Rightarrow> json \<Rightarrow> jsstring \<Rightarrow> (json \<times> jsstring) option" where
  "literal word v s =
     (if take (length word) s = word then Some (v, drop (length word) s) else None)"

text \<open>
  A value, the elements of a non-empty array after its bracket, and the members of a
  non-empty object after its brace. The first argument bounds the depth of the calls;
  \<open>JSON_parse\<close> starts with a bound that no text can use up, since every second call has
  consumed a character.
\<close>

fun parse_value :: "nat \<Rightarrow> jsstring \<Rightarrow> (json \<times> jsstring) option"
  and parse_elements :: "nat \<Rightarrow> jsstring \<Rightarrow> (json list \<times> jsstring) option"
  and parse_members :: "nat \<Rightarrow> jsstring \<Rightarrow> ((jsstring \<times> json) list \<times> jsstring) option"
where
  "parse_value 0 s = None"
| "parse_value (Suc n) s =
     (case s of
        [] \<Rightarrow> None
      | c # cs \<Rightarrow>
          if c = 123 then
            (case skip_ws cs of
               [] \<Rightarrow> None
             | d # ds \<Rightarrow>
                 if d = 125 then Some (JObject [], ds)
                 else map_fst_option JObject (parse_members n (d # ds)))
          else if c = 91 then
            (case skip_ws cs of
               [] \<Rightarrow> None
             | d # ds \<Rightarrow>
                 if d = 93 then Some (JArray [], ds)
                 else map_fst_option JArray (parse_elements n (d # ds)))
          else if c = 34 then map_fst_option JString (string_chars cs)
          else if c = 116 then literal (js ''true'') (JBool True) s
          else if c = 102 then literal (js ''false'') (JBool False) s
          else if c = 110 then literal (js ''null'') JNull s
          else map_fst_option JNumber (parse_number s))"
| "parse_elements 0 s = None"
| "parse_elements (Suc n) s =
     (case parse_value n s of
        None \<Rightarrow> None
      | Some (v, r) \<Rightarrow>
          (case skip_ws r of
             [] \<Rightarrow> None
           | c # cs \<Rightarrow>
               if c = 44 then cons_fst v (parse_elements n (skip_ws cs))
               else if c = 93 then Some ([v], cs)
               else None))"
| "parse_members 0 s = None"
| "parse_members (Suc n) s =
     (case s of
        [] \<Rightarrow> None
      | q # qs \<Rightarrow>
          if q \<noteq> 34 then None
          else
            (case string_chars qs of
               None \<Rightarrow> None
             | Some (key, r) \<Rightarrow>
                 (case skip_ws r of
                    [] \<Rightarrow> None
                  | colon # r1 \<Rightarrow>
                      if colon \<noteq> 58 then None
                      else
                        (case parse_value n (skip_ws r1) of
                           None \<Rightarrow> None
                         | Some (v, r2) \<Rightarrow>
                             (case skip_ws r2 of
                                [] \<Rightarrow> None
                              | c # cs \<Rightarrow>
                                  if c = 44 then
                                    cons_fst (key, v) (parse_members n (skip_ws cs))
                                  else if c = 125 then Some ([(key, v)], cs)
                                  else None)))))"

definition JSON_parse :: "jsstring \<Rightarrow> error + json" where
  "JSON_parse text =
     (case parse_value (2 * length text + 2) (skip_ws text) of
        None \<Rightarrow> Inl SyntaxError
      | Some (v, rest) \<Rightarrow> if skip_ws rest = [] then Inr v else Inl SyntaxError)"

subsection \<open>Token validation\<close>

text \<open>
  \<^verbatim>\<open>payload.exp\<close>: reading a property of \<^verbatim>\<open>null\<close> throws; an object gives the value of its
  last member of that name, or \<^verbatim>\<open>undefined\<close> (\<open>None\<close>); every other value has no property
  \<^verbatim>\<open>exp\<close>.
\<close>

definition payload_exp :: "json \<Rightarrow> error + json option" where
  "payload_exp payload =
     (case payload of
        JNull \<Rightarrow> Inl TypeError
      | JObject members \<Rightarrow> Inr (map_of (rev members) (js ''exp''))
      | _ \<Rightarrow> Inr None)"

text \<open>
  \<^verbatim>\<open>v > t\<close> for a number \<open>t\<close>. \<^verbatim>\<open>undefined\<close> becomes NaN and compares false, \<^verbatim>\<open>null\<close>
  counts as 0, \<^verbatim>\<open>false\<close> as 0 and \<^verbatim>\<open>true\<close> as 1. A string, an array or an object is first
  converted to a number by the rules of the language; that conversion is not modelled,
  and the outcome of the comparison for such a value is the parameter \<open>coerced\<close>.
\<close>

definition greaterThan :: "(json \<Rightarrow> int \<Rightarrow> bool) \<Rightarrow> json option \<Rightarrow> int \<Rightarrow> bool" where
  "greaterThan coerced v t =
     (case v of
        None \<Rightarrow> False
      | Some JNull \<Rightarrow> 0 > t
      | Some (JBool b) \<Rightarrow> (if b then 1 else 0) > t
      | Some (JNumber x) \<Rightarrow> x > of_int t
      | Some w \<Rightarrow> coerced w t)"

text \<open>
  The first statements of the try block of \<^verbatim>\<open>isTokenValid\<close>: the second part of the
  token, with \<^verbatim>\<open>-\<close> and \<^verbatim>\<open>_\<close> replaced, decoded and parsed. A token without a dot has no
  second part, and \<^verbatim>\<open>replace\<close> on \<^verbatim>\<open>undefined\<close> throws.
\<close>

definition decodePayload :: "jsstring \<Rightarrow> error + json" where
  "decodePayload token =
     (case split 46 token of
        header # base64Url # _ \<Rightarrow>
          (let base64 = replaceAll 95 47 (replaceAll 45 43 base64Url)
           in JSON_parse (base64Decode base64))
      | _ \<Rightarrow> Inl TypeError)"

text \<open>
  The whole try block. \<open>clock\<close> is \<^verbatim>\<open>Date.now()\<close>, in milliseconds.
\<close>

definition isTokenValid_try :: "(json \<Rightarrow> int \<Rightarrow> bool) \<Rightarrow> int \<Rightarrow> jsstring \<Rightarrow> error + bool" where
  "isTokenValid_try coerced clock token =
     (case decodePayload token of
        Inl e \<Rightarrow> Inl e
      | Inr payload \<Rightarrow>
          (let currentTime = clock div 1000
           in case payload_exp payload of
                Inl e \<Rightarrow> Inl e
              | Inr exp_claim \<Rightarrow> Inr (greaterThan coerced exp_claim currentTime)))"

text \<open>\<^verbatim>\<open>isTokenValid\<close>: the catch block turns every error into \<^verbatim>\<open>false\<close>.\<close>

definition isTokenValid :: "(json \<Rightarrow> int \<Rightarrow> bool) \<Rightarrow> int \<Rightarrow> jsstring \<Rightarrow> error + bool" where
  "isTokenValid coerced clock token =
     (case isTokenValid_try coerced clock token of
        Inl e \<Rightarrow> Inr False
      | Inr b \<Rightarrow> Inr b)"

subsection \<open>Local storage\<close>

text \<open>
  \<^verbatim>\<open>AsyncStorage\<close> maps keys to strings. Its calls can be rejected; \<open>readable\<close> and
  \<open>writable\<close> say whether the reads and the writes go through.
\<close>

record AsyncStorage =
  items :: "jsstring \<rightharpoonup> jsstring"
  readable :: bool
  writable :: bool

definition getItem :: "jsstring \<Rightarrow> AsyncStorage \<Rightarrow> error + jsstring option" where
  "getItem key st = (if readable st then Inr (items st key) else Inl StorageError)"

definition multiSet ::
  "(jsstring \<times> jsstring) list \<Rightarrow> AsyncStorage \<Rightarrow> (error + unit) \<times> AsyncStorage" where
  "multiSet pairs st =
     (if writable st
      then (Inr (), st\<lparr>items := fold (\<lambda>(k, v) m. m(k \<mapsto> v)) pairs (items st)\<rparr>)
      else (Inl StorageError, st))"

definition multiRemove :: "jsstring list \<Rightarrow> AsyncStorage \<Rightarrow> (error + unit) \<times> AsyncStorage" where
  "multiRemove keys st =
     (if writable st
      then (Inr (), st\<lparr>items := fold (\<lambda>k m. m(k := None)) keys (items st)\<rparr>)
      else (Inl StorageError, st))"

definition AUTH_TOKEN_KEY :: jsstring where
  "AUTH_TOKEN_KEY = js ''auth_token''"

definition USER_DATA_KEY :: jsstring where
  "USER_DATA_KEY = js ''user_data''"

definition getAuthToken :: "AsyncStorage \<Rightarrow> jsstring option" where
  "getAuthToken st =
     (case getItem AUTH_TOKEN_KEY st of
        Inl e \<Rightarrow> None
      | Inr v \<Rightarrow> v)"

text \<open>
  \<^verbatim>\<open>getUserData\<close> returns the parsed value or \<^verbatim>\<open>null\<close>; the \<^verbatim>\<open>null\<close> of the function and the
  \<^verbatim>\<open>null\<close> that \<^verbatim>\<open>JSON.parse\<close> can return are the same value, \<open>JNull\<close>.
\<close>

definition getUserData :: "AsyncStorage \<Rightarrow> json" where
  "getUserData st =
     (case getItem USER_DATA_KEY st of
        Inl e \<Rightarrow> JNull
      | Inr None \<Rightarrow> JNull
      | Inr (Some userData) \<Rightarrow>
          if userData = [] then JNull
          else (case JSON_parse userData of
                  Inl e \<Rightarrow> JNull
                | Inr v \<Rightarrow> v))"

text \<open>The values that count as true in a condition.\<close>

definition truthy :: "json \<Rightarrow> bool" where
  "truthy v =
     (case v of
        JNull \<Rightarrow> False
      | JBool b \<Rightarrow> b
      | JNumber x \<Rightarrow> x \<noteq> 0
      | JString s \<Rightarrow> s \<noteq> []
      | _ \<Rightarrow> True)"

definition isAuthenticated :: "(json \<Rightarrow> int \<Rightarrow> bool) \<Rightarrow> int \<Rightarrow> AsyncStorage \<Rightarrow> error + bool" where
  "isAuthenticated coerced clock st =
     (let token = getAuthToken st;
          userData = getUserData st
      in case token of
           None \<Rightarrow> Inr False
         | Some t \<Rightarrow>
             if t = [] \<or> \<not> truthy userData then Inr False
             else (case isTokenValid coerced clock t of
                     Inl e \<Rightarrow> Inr False
                   | Inr b \<Rightarrow> Inr b))"

subsection \<open>Login\<close>

record LoginCredentials =
  email :: jsstring
  password :: jsstring

record LoginResponse =
  companies :: jsstring
  role :: jsstring
  jwt :: jsstring
  name :: jsstring
  id_LoginResponse :: jsstring
  companiesId :: jsstring

text \<open>
  \<^verbatim>\<open>JSON.stringify\<close> of a \<^verbatim>\<open>LoginResponse\<close>. A string is quoted; quote, backslash and
  control characters are escaped, and so is a surrogate that has no partner. The members
  are written in the order of the interface.
\<close>

definition hexDigit :: "nat \<Rightarrow> nat" where
  "hexDigit d = (if d < 10 then 48 + d else 87 + d)"

definition unicodeEscape :: "nat \<Rightarrow> jsstring" where
  "unicodeEscape c =
     [92, 117, hexDigit (c div 4096 mod 16), hexDigit (c div 256 mod 16),
      hexDigit (c div 16 mod 16), hexDigit (c mod 16)]"

definition quoteUnit :: "nat \<Rightarrow> jsstring" where
  "quoteUnit c =
     (if c = 8 then [92, 98]
      else if c = 9 then [92, 116]
      else if c = 10 then [92, 110]
      else if c = 12 then [92, 102]
      else if c = 13 then [92, 114]
      else if c = 34 then [92, 34]
      else if c = 92 then [92, 92]
      else if c < 32 then unicodeEscape c
      else [c])"

definition leadSurrogate :: "nat \<Rightarrow> bool" where
  "leadSurrogate c = (55296 \<le> c \<and> c \<le> 56319)"

definition trailSurrogate :: "nat \<Rightarrow> bool" where
  "trailSurrogate c = (56320 \<le> c \<and> c \<le> 57343)"

fun quoteChars :: "jsstring \<Rightarrow> jsstring" where
  "quoteChars [] = []"
| "quoteChars [c] =
     (if leadSurrogate c \<or> trailSurrogate c then unicodeEscape c else quoteUnit c)"
| "quoteChars (c # d # rest) =
     (if leadSurrogate c \<and> trailSurrogate d then c # d # quoteChars rest
      else if leadSurrogate c \<or> trailSurrogate c then unicodeEscape c @ quoteChars (d # rest)
      else quoteUnit c @ quoteChars (d # rest))"

definition quoteJSONString :: "jsstring \<Rightarrow> jsstring" where
  "quoteJSONString s = 34 # quoteChars s @ [34]"

definition JSON_stringify :: "LoginResponse \<Rightarrow> jsstring" where
  "JSON_stringify u =
     js ''{'' @ quoteJSONString (js ''companies'') @ js '':'' @ quoteJSONString (companies u) @
     js '','' @ quoteJSONString (js ''role'') @ js '':'' @ quoteJSONString (role u) @
     js '','' @ quoteJSONString (js ''jwt'') @ js '':'' @ quoteJSONString (jwt u) @
     js '','' @ quoteJSONString (js ''name'') @ js '':'' @ quoteJSONString (name u) @
     js '','' @ quoteJSONString (js ''id'') @ js '':'' @ quoteJSONString (id_LoginResponse u) @
     js '','' @ quoteJSONString (js ''companiesId'') @ js '':'' @
       quoteJSONString (companiesId u) @
     js ''}''"

definition storeAuthData :: "LoginResponse \<Rightarrow> AsyncStorage \<Rightarrow> (error + unit) \<times> AsyncStorage" where
  "storeAuthData userData st =
     (case multiSet [(AUTH_TOKEN_KEY, jwt userData), (USER_DATA_KEY, JSON_stringify userData)] st of
        (Inl e, st') \<Rightarrow> (Inl (Error (js ''Failed to store authentication data'')), st')
      | (Inr u, st') \<Rightarrow> (Inr u, st'))"

text \<open>
  The answer of the server to \<^verbatim>\<open>fetch\<close>: \<^verbatim>\<open>response.ok\<close>, \<^verbatim>\<open>response.status\<close>, the body as
  \<^verbatim>\<open>response.text()\<close> gives it and as \<^verbatim>\<open>response.json()\<close> gives it, which the service takes
  to be a \<^verbatim>\<open>LoginResponse\<close>.
\<close>

record Response =
  ok :: bool
  status_Response :: int
  text_Response :: jsstring
  json_Response :: "error + LoginResponse"

text \<open>
  \<^verbatim>\<open>login\<close>. The server is the function \<open>fetch\<close>, which answers or rejects. The outer catch
  block throws a new error with the message of the one it caught; the model keeps the
  error. The session of Firebase is only logged, and the driver route is initialised by
  another service whose failure is swallowed; neither touches the result or the storage.
\<close>

definition login ::
  "(LoginCredentials \<Rightarrow> error + Response) \<Rightarrow> LoginCredentials \<Rightarrow> AsyncStorage
     \<Rightarrow> (error + LoginResponse) \<times> AsyncStorage" where
  "login fetch credentials st =
     (case fetch credentials of
        Inl e \<Rightarrow> (Inl e, st)
      | Inr response \<Rightarrow>
          if \<not> ok response then
            (Inl (Error (js ''Login failed: '' @ numberToString (status_Response response) @
                         js '' - '' @ text_Response response)), st)
          else
            (case json_Response response of
               Inl e \<Rightarrow> (Inl e, st)
             | Inr userData \<Rightarrow>
                 (case storeAuthData userData st of
                    (Inl e, st') \<Rightarrow> (Inl e, st')
                  | (Inr u, st') \<Rightarrow> (Inr userData, st'))))"

definition logout :: "AsyncStorage \<Rightarrow> (error + unit) \<times> AsyncStorage" where
  "logout st =
     (case multiRemove [AUTH_TOKEN_KEY, USER_DATA_KEY] st of
        (Inl e, st') \<Rightarrow> (Inl (Error (js ''Failed to logout'')), st')
      | (Inr u, st') \<Rightarrow> (Inr u, st'))"


section \<open>Scenarios\<close>

text \<open>
  The concrete inputs the theorems below are run on. \<open>offline_until n\<close> is a Firestore whose
  first \<open>n\<close> requests are rejected and whose later requests succeed.
\<close>

definition offline_until :: "nat \<Rightarrow> nat \<Rightarrow> bool" where
  "offline_until n k = (n \<le> k)"

definition coordinate_at :: "real \<Rightarrow> real \<Rightarrow> real \<Rightarrow> Coordinate" where
  "coordinate_at lat lon t =
     \<lparr>Coordinate.latitude = lat, longitude = lon, timestamp = t, accuracy = None, speed = None,
      heading = None\<rparr>"

definition firestore_offline_until :: "nat \<Rightarrow> Firestore" where
  "firestore_offline_until n = \<lparr>succeeds = offline_until n, requests = 0, written = []\<rparr>"

definition on_trip :: "Coordinate list \<Rightarrow> TripLocationService" where
  "on_trip cs = \<lparr>pendingUpdates = cs, currentTripId = Some (js ''trip1'')\<rparr>"

text \<open>The writes that go through when the coordinates \<open>cs\<close> are submitted for a trip, in order.\<close>

definition writesFor :: "jsstring \<Rightarrow> Coordinate list \<Rightarrow> fs_write list" where
  "writesFor tripId cs = concat (map (\<lambda>c. [UpdateLocation tripId c, AddHistory tripId c]) cs)"










text \<open>
  An instance of the parameter \<open>coerced\<close> of the token check; no scenario below has an
  \<^verbatim>\<open>exp\<close> that is a string, an array or an object, so none depends on it.
\<close>

definition coerced_never :: "json \<Rightarrow> int \<Rightarrow> bool" where
  "coerced_never v t = False"

text \<open>
  Four tokens with the header \<^verbatim>\<open>{"alg":"HS256"}\<close>. The payloads are
  \<^verbatim>\<open>{"exp":1600000000}\<close> (expired in 2020), \<^verbatim>\<open>{"exp":4102444800}\<close> (expires in 2100; 18
  bytes, 24 characters of base64), \<^verbatim>\<open>{"exp":4102444800,"sub":"7"}\<close> (28 bytes, 38 characters
  of base64, which is not a multiple of four), and a payload whose base64 text has the four
  characters \<^verbatim>\<open>!!!!\<close> in it, which do not belong to the alphabet.
\<close>

definition expired_token :: jsstring where
  "expired_token = js ''eyJhbGciOiJIUzI1NiJ9.eyJleHAiOjE2MDAwMDAwMDB9.c2ln''"

definition unpadded_token :: jsstring where
  "unpadded_token = js ''eyJhbGciOiJIUzI1NiJ9.eyJleHAiOjQxMDI0NDQ4MDB9.c2ln''"

definition padded_token :: jsstring where
  "padded_token = js ''eyJhbGciOiJIUzI1NiJ9.eyJleHAiOjQxMDI0NDQ4MDAsInN1YiI6IjcifQ.c2ln''"


text \<open>A storage that works, a server that accepts the login of a driver, and the login itself.\<close>

definition storage_with :: "jsstring \<Rightarrow> jsstring \<Rightarrow> AsyncStorage" where
  "storage_with token userData =
     \<lparr>items = [AUTH_TOKEN_KEY \<mapsto> token, USER_DATA_KEY \<mapsto> userData],
      readable = True, writable = True\<rparr>"

definition empty_storage :: AsyncStorage where
  "empty_storage = \<lparr>items = Map.empty, readable = True, writable = True\<rparr>"

definition driver :: LoginResponse where
  "driver = \<lparr>companies = js ''Acme'', role = js ''DRIVER'', jwt = padded_token,
             name = js ''Ana'', id_LoginResponse = js ''7'', companiesId = js ''1''\<rparr>"

definition credentials :: LoginCredentials where
  "credentials = \<lparr>email = js ''ana@example.com'', password = js ''secret''\<rparr>"

definition server_accepts :: "LoginResponse \<Rightarrow> LoginCredentials \<Rightarrow> error + Response" where
  "server_accepts u c =
     Inr \<lparr>ok = True, status_Response = 200, text_Response = JSON_stringify u,
          json_Response = Inr u\<rparr>"

definition logged_in :: AsyncStorage where
  "logged_in = snd (login (server_accepts driver) credentials empty_storage)"


section \<open>The pending-update queue\<close>

text \<open>
  One call of \<^verbatim>\<open>updateCurrentLocation\<close>, when the update is rejected and when both writes
  go through.
\<close>

lemma update_rejected:
  "\<not> succeeds fs (requests fs) \<Longrightarrow>
   updateCurrentLocation tripId c (svc, fs) =
     (Inl FirestoreError,
      (svc\<lparr>pendingUpdates := pendingUpdates svc @ [c]\<rparr>, fs\<lparr>requests := Suc (requests fs)\<rparr>))"
  by (simp add: updateCurrentLocation_def request_def)

lemma update_accepted:
  "succeeds fs (requests fs) \<Longrightarrow> succeeds fs (Suc (requests fs)) \<Longrightarrow>
   updateCurrentLocation tripId c (svc, fs) =
     (Inr (),
      (svc, fs\<lparr>requests := requests fs + 2,
              written := written fs @ [UpdateLocation tripId c, AddHistory tripId c]\<rparr>))"
  by (simp add: updateCurrentLocation_def request_def addToHistory_def)

text \<open>A run of rejected location updates queues the coordinates in the order of the calls.\<close>

lemma locationUpdates_rejected:
  "\<forall>k. requests fs \<le> k \<and> k < requests fs + length us \<longrightarrow> \<not> succeeds fs k \<Longrightarrow>
   locationUpdates us (svc, fs) =
     (svc\<lparr>pendingUpdates := pendingUpdates svc @ map snd us\<rparr>,
      fs\<lparr>requests := requests fs + length us\<rparr>)"
proof (induction us arbitrary: svc fs)
  case Nil
  show ?case by simp
next
  case (Cons u us)
  obtain tripId c where u: "u = (tripId, c)"
    by (cases u)
  have first: "\<not> succeeds fs (requests fs)"
    using Cons.prems by simp
  let ?svc = "svc\<lparr>pendingUpdates := pendingUpdates svc @ [c]\<rparr>"
  let ?fs = "fs\<lparr>requests := Suc (requests fs)\<rparr>"
  have rest: "\<forall>k. requests ?fs \<le> k \<and> k < requests ?fs + length us \<longrightarrow> \<not> succeeds ?fs k"
    using Cons.prems by simp
  have "locationUpdates (u # us) (svc, fs) = locationUpdates us (?svc, ?fs)"
    by (simp add: u update_rejected [OF first])
  also have "\<dots> = (?svc\<lparr>pendingUpdates := pendingUpdates ?svc @ map snd us\<rparr>,
                     ?fs\<lparr>requests := requests ?fs + length us\<rparr>)"
    by (rule Cons.IH [OF rest])
  finally show ?case
    by (simp add: u)
qed

text \<open>The loop of the retry when every request succeeds, and when every update is rejected.\<close>

lemma retryLoop_accepted:
  "currentTripId svc = Some tripId \<Longrightarrow> \<forall>k. requests fs \<le> k \<longrightarrow> succeeds fs k \<Longrightarrow>
   retryLoop cs (svc, fs) =
     (svc, fs\<lparr>requests := requests fs + 2 * length cs,
             written := written fs @ writesFor tripId cs\<rparr>)"
proof (induction cs arbitrary: fs)
  case Nil
  show ?case by (simp add: writesFor_def)
next
  case (Cons c cs)
  let ?fs = "fs\<lparr>requests := requests fs + 2,
                 written := written fs @ [UpdateLocation tripId c, AddHistory tripId c]\<rparr>"
  have step: "updateCurrentLocation tripId c (svc, fs) = (Inr (), (svc, ?fs))"
    using Cons.prems(2) by (intro update_accepted) simp_all
  have rest: "\<forall>k. requests ?fs \<le> k \<longrightarrow> succeeds ?fs k"
    using Cons.prems(2) by simp
  have "retryLoop (c # cs) (svc, fs) = retryLoop cs (svc, ?fs)"
    using Cons.prems(1) by (simp add: tripIdArg_def step)
  also have "\<dots> = (svc, ?fs\<lparr>requests := requests ?fs + 2 * length cs,
                             written := written ?fs @ writesFor tripId cs\<rparr>)"
    by (rule Cons.IH [OF Cons.prems(1) rest])
  finally show ?case
    by (simp add: writesFor_def)
qed

lemma retryLoop_rejected:
  "\<forall>k. requests fs \<le> k \<and> k < requests fs + length cs \<longrightarrow> \<not> succeeds fs k \<Longrightarrow>
   retryLoop cs (svc, fs) =
     (svc\<lparr>pendingUpdates := pendingUpdates svc @ concat (map (\<lambda>c. [c, c]) cs)\<rparr>,
      fs\<lparr>requests := requests fs + length cs\<rparr>)"
proof (induction cs arbitrary: svc fs)
  case Nil
  show ?case by simp
next
  case (Cons c cs)
  have first: "\<not> succeeds fs (requests fs)"
    using Cons.prems by simp
  let ?svc = "svc\<lparr>pendingUpdates := pendingUpdates svc @ [c, c]\<rparr>"
  let ?fs = "fs\<lparr>requests := Suc (requests fs)\<rparr>"
  have rest: "\<forall>k. requests ?fs \<le> k \<and> k < requests ?fs + length cs \<longrightarrow> \<not> succeeds ?fs k"
    using Cons.prems by simp
  have "retryLoop (c # cs) (svc, fs) = retryLoop cs (?svc, ?fs)"
    by (simp add: update_rejected [OF first])
  also have "\<dots> = (?svc\<lparr>pendingUpdates := pendingUpdates ?svc @ concat (map (\<lambda>c. [c, c]) cs)\<rparr>,
                     ?fs\<lparr>requests := requests ?fs + length cs\<rparr>)"
    by (rule Cons.IH [OF rest])
  finally show ?case
    by simp
qed

text \<open>
  Claim C1, amended. Let a current trip id be set (not \<^verbatim>\<open>null\<close>, not empty). After a run of
  location updates that are all rejected, each of which appends its coordinate to
  \<^verbatim>\<open>pendingUpdates\<close>, and with every later request succeeding, one call of
  \<^verbatim>\<open>retryPendingUpdates\<close> submits exactly the queued coordinates, in the order of insertion
  and for the current trip id, and leaves \<^verbatim>\<open>pendingUpdates\<close> empty.
\<close>

theorem retry_drains_queue:
  assumes trip: "currentTripId svc = Some tripId" "tripId \<noteq> []"
    and offline: "\<forall>k. requests fs \<le> k \<and> k < requests fs + length us \<longrightarrow> \<not> succeeds fs k"
    and online: "\<forall>k. requests fs + length us \<le> k \<longrightarrow> succeeds fs k"
  shows "pendingUpdates (fst (locationUpdates us (svc, fs))) = pendingUpdates svc @ map snd us \<and>
         pendingUpdates (fst (retryPendingUpdates (locationUpdates us (svc, fs)))) = [] \<and>
         written (snd (retryPendingUpdates (locationUpdates us (svc, fs)))) =
           written fs @ writesFor tripId (pendingUpdates svc @ map snd us) \<and>
         currentTripId (fst (retryPendingUpdates (locationUpdates us (svc, fs)))) = Some tripId"
proof -
  let ?queue = "pendingUpdates svc @ map snd us"
  let ?svc1 = "svc\<lparr>pendingUpdates := ?queue\<rparr>"
  let ?fs1 = "fs\<lparr>requests := requests fs + length us\<rparr>"
  have after: "locationUpdates us (svc, fs) = (?svc1, ?fs1)"
    by (rule locationUpdates_rejected [OF offline])
  have online1: "\<forall>k. requests ?fs1 \<le> k \<longrightarrow> succeeds ?fs1 k"
    using online by simp
  have trip1: "currentTripId (?svc1\<lparr>pendingUpdates := []\<rparr>) = Some tripId"
    using trip by simp
  have loop: "retryLoop ?queue (?svc1\<lparr>pendingUpdates := []\<rparr>, ?fs1) =
      (?svc1\<lparr>pendingUpdates := []\<rparr>,
       ?fs1\<lparr>requests := requests ?fs1 + 2 * length ?queue,
             written := written ?fs1 @ writesFor tripId ?queue\<rparr>)"
    by (rule retryLoop_accepted [OF trip1 online1])
  have retry: "retryPendingUpdates (?svc1, ?fs1) =
      (if ?queue = [] then (?svc1, ?fs1)
       else (?svc1\<lparr>pendingUpdates := []\<rparr>,
             ?fs1\<lparr>requests := requests ?fs1 + 2 * length ?queue,
                   written := written ?fs1 @ writesFor tripId ?queue\<rparr>))"
    using trip loop by (simp add: retryPendingUpdates_def noTripId_def)
  have queued: "pendingUpdates (fst (locationUpdates us (svc, fs))) = ?queue"
    by (simp add: after)
  have drained: "pendingUpdates (fst (retryPendingUpdates (locationUpdates us (svc, fs)))) = []"
    by (simp add: after retry)
  have submitted: "written (snd (retryPendingUpdates (locationUpdates us (svc, fs)))) =
          written fs @ writesFor tripId ?queue"
    by (simp add: after retry writesFor_def)
  have kept: "currentTripId (fst (retryPendingUpdates (locationUpdates us (svc, fs)))) = Some tripId"
    using trip by (simp add: after retry)
  from queued drained submitted kept show ?thesis
    by simp
qed

theorem retry_drains_queue_witness:
  "pendingUpdates (fst (retryPendingUpdates (locationUpdates
       [(js ''trip1'', coordinate_at 19 (- 99) 1), (js ''trip1'', coordinate_at 20 (- 98) 2)]
       (on_trip [], firestore_offline_until 2)))) = [] \<and>
   written (snd (retryPendingUpdates (locationUpdates
       [(js ''trip1'', coordinate_at 19 (- 99) 1), (js ''trip1'', coordinate_at 20 (- 98) 2)]
       (on_trip [], firestore_offline_until 2)))) =
     [UpdateLocation (js ''trip1'') (coordinate_at 19 (- 99) 1),
      AddHistory (js ''trip1'') (coordinate_at 19 (- 99) 1),
      UpdateLocation (js ''trip1'') (coordinate_at 20 (- 98) 2),
      AddHistory (js ''trip1'') (coordinate_at 20 (- 98) 2)]"
proof -
  let ?us = "[(js ''trip1'', coordinate_at 19 (- 99) 1), (js ''trip1'', coordinate_at 20 (- 98) 2)]"
  have h1: "currentTripId (on_trip []) = Some (js ''trip1'')"
    by (simp add: on_trip_def)
  have h2: "js ''trip1'' \<noteq> []"
    by (simp add: js_def)
  have h3: "\<forall>k. requests (firestore_offline_until 2) \<le> k \<and>
                k < requests (firestore_offline_until 2) + length ?us \<longrightarrow>
                \<not> succeeds (firestore_offline_until 2) k"
    by (simp add: firestore_offline_until_def offline_until_def)
  have h4: "\<forall>k. requests (firestore_offline_until 2) + length ?us \<le> k \<longrightarrow>
                succeeds (firestore_offline_until 2) k"
    by (simp add: firestore_offline_until_def offline_until_def)
  show ?thesis
    using retry_drains_queue [OF h1 h2 h3 h4]
    by (simp add: on_trip_def firestore_offline_until_def writesFor_def)
qed

text \<open>
  Claim C1 as stated fails when no trip id is set: on a new service, one rejected update
  followed by restored connectivity leaves the coordinate in the queue after
  \<^verbatim>\<open>retryPendingUpdates\<close>, and nothing is submitted.
\<close>

theorem retry_without_trip_keeps_queue:
  "pendingUpdates (fst (retryPendingUpdates (locationUpdates
       [(js ''trip1'', coordinate_at 19 (- 99) 1)]
       (new_TripLocationService, firestore_offline_until 1)))) = [coordinate_at 19 (- 99) 1] \<and>
   written (snd (retryPendingUpdates (locationUpdates
       [(js ''trip1'', coordinate_at 19 (- 99) 1)]
       (new_TripLocationService, firestore_offline_until 1)))) = []"
  by (simp add: retryPendingUpdates_def noTripId_def new_TripLocationService_def
      firestore_offline_until_def offline_until_def updateCurrentLocation_def request_def)

text \<open>
  Claim C2: a coordinate whose retry fails is queued again once for each failed attempt.
  The code queues it twice: \<^verbatim>\<open>updateCurrentLocation\<close> pushes it in its catch block and
  rethrows, and the catch block of the loop pushes it again. With one coordinate pending
  and the retry rejected, the queue holds the coordinate twice.
\<close>

theorem retry_requeues_twice:
  "pendingUpdates (fst (retryPendingUpdates
       (on_trip [coordinate_at 19 (- 99) 1], firestore_offline_until 1))) =
     [coordinate_at 19 (- 99) 1, coordinate_at 19 (- 99) 1]"
  by (simp add: retryPendingUpdates_def noTripId_def on_trip_def tripIdArg_def js_def
      firestore_offline_until_def offline_until_def updateCurrentLocation_def request_def)

text \<open>
  Claim C10. When \<^verbatim>\<open>pendingUpdates\<close> is empty or no current trip id is set,
  \<^verbatim>\<open>retryPendingUpdates\<close> returns at once: no request is sent, and the queue, its length and
  the current trip id are what they were.
\<close>

theorem retry_noop:
  assumes "pendingUpdates svc = [] \<or> noTripId (currentTripId svc)"
  shows "retryPendingUpdates (svc, fs) = (svc, fs) \<and>
         getPendingUpdatesCount (fst (retryPendingUpdates (svc, fs))) = getPendingUpdatesCount svc \<and>
         getCurrentTripId (fst (retryPendingUpdates (svc, fs))) = getCurrentTripId svc"
  using assms by (auto simp: retryPendingUpdates_def)

theorem retry_noop_witness:
  "retryPendingUpdates
     (\<lparr>pendingUpdates = [coordinate_at 19 (- 99) 1], currentTripId = None\<rparr>,
      firestore_offline_until 0) =
     (\<lparr>pendingUpdates = [coordinate_at 19 (- 99) 1], currentTripId = None\<rparr>,
      firestore_offline_until 0)"
proof -
  have h: "pendingUpdates \<lparr>pendingUpdates = [coordinate_at 19 (- 99) 1], currentTripId = None\<rparr> = [] \<or>
           noTripId (currentTripId \<lparr>pendingUpdates = [coordinate_at 19 (- 99) 1], currentTripId = None\<rparr>)"
    by (simp add: noTripId_def)
  show ?thesis
    using retry_noop [OF h] by simp
qed


section \<open>Distance\<close>

lemma half_angle_sq:
  "sin (toRad (x - y) / 2) * sin (toRad (x - y) / 2) =
   sin (toRad (y - x) / 2) * sin (toRad (y - x) / 2)"
proof -
  have "toRad (x - y) / 2 = - (toRad (y - x) / 2)"
    by (simp add: toRad_def field_simps)
  then show ?thesis
    by simp
qed

text \<open>
  Over the real numbers the Haversine distance is symmetric, for \<^verbatim>\<open>calculateDistance\<close> and
  for \<^verbatim>\<open>haversineDistance\<close>. The program computes in doubles and rounds after every
  operation; in \<^verbatim>\<open>sin(dLon/2) * sin(dLon/2) * cos(lat1) * cos(lat2)\<close> the two cosines are
  multiplied in, and rounded, in the order of the two points, so the lemma says nothing
  about the last bit of the two doubles (claim C6 is about their equality).
\<close>

lemma distance_symmetric:
  "calculateDistance a b = calculateDistance b a \<and> haversineDistance a b = haversineDistance b a"
proof -
  have lat: "sin (toRad (latitude b - latitude a) / 2) * sin (toRad (latitude b - latitude a) / 2) =
             sin (toRad (latitude a - latitude b) / 2) * sin (toRad (latitude a - latitude b) / 2)"
    by (rule half_angle_sq)
  have lon: "sin (toRad (longitude b - longitude a) / 2) * sin (toRad (longitude b - longitude a) / 2) =
             sin (toRad (longitude a - longitude b) / 2) * sin (toRad (longitude a - longitude b) / 2)"
    by (rule half_angle_sq)
  have a_eq:
    "sin (toRad (latitude b - latitude a) / 2) * sin (toRad (latitude b - latitude a) / 2) +
       sin (toRad (longitude b - longitude a) / 2) * sin (toRad (longitude b - longitude a) / 2) *
       cos (toRad (latitude a)) * cos (toRad (latitude b)) =
     sin (toRad (latitude a - latitude b) / 2) * sin (toRad (latitude a - latitude b) / 2) +
       sin (toRad (longitude a - longitude b) / 2) * sin (toRad (longitude a - longitude b) / 2) *
       cos (toRad (latitude b)) * cos (toRad (latitude a))"
    by (simp only: lat lon mult.assoc mult.commute [of "cos (toRad (latitude a))"])
  show ?thesis
    unfolding calculateDistance_def haversineDistance_def Let_def a_eq by simp
qed




section \<open>Retry with growing delay\<close>








section \<open>Trip status\<close>










section \<open>Token check and login\<close>

text \<open>
  The four tokens, step by step: the parts of the token, the decoded second part, and
  what \<^verbatim>\<open>JSON.parse\<close> makes of it. A second part whose length is not a multiple of four is
  padded with \<^verbatim>\<open>=\<close>, which \<^verbatim>\<open>indexOf\<close> does not find in \<^verbatim>\<open>chars\<close>: the index is -1, never 64,
  and the last group decodes to three code units 255.
\<close>

lemmas decode_simps =
  base64Decode_def padLoop.simps decodeLoop.simps indexOf_def charAt_def chars_def js_def
  Let_def replaceAll_def

lemma expired_split:
  "split 46 expired_token = [js ''eyJhbGciOiJIUzI1NiJ9'', js ''eyJleHAiOjE2MDAwMDAwMDB9'', js ''c2ln'']"
  by (simp add: expired_token_def js_def)

lemma expired_decoded:
  "base64Decode (replaceAll 95 47 (replaceAll 45 43 (js ''eyJleHAiOjE2MDAwMDAwMDB9''))) =
     js ''{\"exp\":1600000000}''"
  by (simp add: decode_simps)

lemma expired_parsed:
  "JSON_parse (js ''{\"exp\":1600000000}'') = Inr (JObject [(js ''exp'', JNumber 1600000000)])"
  by code_simp

lemma expired_payload:
  "decodePayload expired_token = Inr (JObject [(js ''exp'', JNumber 1600000000)])"
  by (simp only: decodePayload_def expired_split list.case Let_def expired_decoded expired_parsed)

lemma unpadded_split:
  "split 46 unpadded_token = [js ''eyJhbGciOiJIUzI1NiJ9'', js ''eyJleHAiOjQxMDI0NDQ4MDB9'', js ''c2ln'']"
  by (simp add: unpadded_token_def js_def)

lemma unpadded_decoded:
  "base64Decode (replaceAll 95 47 (replaceAll 45 43 (js ''eyJleHAiOjQxMDI0NDQ4MDB9''))) =
     js ''{\"exp\":4102444800}''"
  by (simp add: decode_simps)

lemma unpadded_parsed:
  "JSON_parse (js ''{\"exp\":4102444800}'') = Inr (JObject [(js ''exp'', JNumber 4102444800)])"
  by code_simp

lemma unpadded_payload:
  "decodePayload unpadded_token = Inr (JObject [(js ''exp'', JNumber 4102444800)])"
  by (simp only: decodePayload_def unpadded_split list.case Let_def unpadded_decoded unpadded_parsed)

lemma padded_split:
  "split 46 padded_token =
     [js ''eyJhbGciOiJIUzI1NiJ9'', js ''eyJleHAiOjQxMDI0NDQ4MDAsInN1YiI6IjcifQ'', js ''c2ln'']"
  by (simp add: padded_token_def js_def)

lemma padded_decoded:
  "base64Decode (replaceAll 95 47 (replaceAll 45 43 (js ''eyJleHAiOjQxMDI0NDQ4MDAsInN1YiI6IjcifQ''))) =
     js ''{\"exp\":4102444800,\"sub\":\"7\"'' @ [255, 255, 255]"
  by (simp add: decode_simps)

lemma padded_parsed:
  "JSON_parse (js ''{\"exp\":4102444800,\"sub\":\"7\"'' @ [255, 255, 255]) = Inl SyntaxError"
  by code_simp

lemma padded_payload: "decodePayload padded_token = Inl SyntaxError"
  by (simp only: decodePayload_def padded_split list.case Let_def padded_decoded padded_parsed)





text \<open>What the login stores, and what \<^verbatim>\<open>getUserData\<close> reads back.\<close>

lemma driver_text:
  "JSON_stringify driver = js ''{\"companies\":\"Acme\",\"role\":\"DRIVER\",\"jwt\":\"eyJhbGciOiJIUzI1NiJ9.eyJleHAiOjQxMDI0NDQ4MDAsInN1YiI6IjcifQ.c2ln\",\"name\":\"Ana\",\"id\":\"7\",\"companiesId\":\"1\"}''"
  by (simp add: JSON_stringify_def driver_def padded_token_def quoteJSONString_def js_def
      quoteUnit_def leadSurrogate_def trailSurrogate_def)

lemma driver_parsed:
  "JSON_parse (js ''{\"companies\":\"Acme\",\"role\":\"DRIVER\",\"jwt\":\"eyJhbGciOiJIUzI1NiJ9.eyJleHAiOjQxMDI0NDQ4MDAsInN1YiI6IjcifQ.c2ln\",\"name\":\"Ana\",\"id\":\"7\",\"companiesId\":\"1\"}'') =
     Inr (JObject [(js ''companies'', JString (js ''Acme'')), (js ''role'', JString (js ''DRIVER'')),
       (js ''jwt'', JString padded_token), (js ''name'', JString (js ''Ana'')),
       (js ''id'', JString (js ''7'')), (js ''companiesId'', JString (js ''1''))])"
  by code_simp

lemma keys_differ: "AUTH_TOKEN_KEY \<noteq> USER_DATA_KEY"
  by (simp add: AUTH_TOKEN_KEY_def USER_DATA_KEY_def js_def)

lemma login_stores:
  assumes "fetch c = Inr response" "ok response" "json_Response response = Inr userData"
    and "writable st"
  shows "login fetch c st =
           (Inr userData,
            st\<lparr>items := (items st)(AUTH_TOKEN_KEY \<mapsto> jwt userData,
                                    USER_DATA_KEY \<mapsto> JSON_stringify userData)\<rparr>)"
  using assms by (simp add: login_def storeAuthData_def multiSet_def)

lemma stored_token: "getAuthToken (storage_with token userData) = Some token"
  by (simp add: getAuthToken_def getItem_def storage_with_def keys_differ)

lemma logged_in_storage:
  "logged_in = storage_with padded_token (JSON_stringify driver)"
proof -
  have "login (server_accepts driver) credentials empty_storage =
          (Inr driver,
           empty_storage\<lparr>items := (items empty_storage)(AUTH_TOKEN_KEY \<mapsto> jwt driver,
                                       USER_DATA_KEY \<mapsto> JSON_stringify driver)\<rparr>)"
    by (rule login_stores [where response = "\<lparr>ok = True, status_Response = 200,
          text_Response = JSON_stringify driver, json_Response = Inr driver\<rparr>"])
       (simp_all add: server_accepts_def empty_storage_def)
  then show ?thesis
    by (simp add: logged_in_def storage_with_def empty_storage_def driver_def)
qed



lemma isAuthenticated_needs_valid_token:
  "getAuthToken st = Some token \<Longrightarrow> isTokenValid coerced clock token = Inr False \<Longrightarrow>
   isAuthenticated coerced clock st = Inr False"
  by (simp add: isAuthenticated_def Let_def)


text \<open>
  Claim C4. When the payload that \<^verbatim>\<open>isTokenValid\<close> decodes from a token has a numeric \<^verbatim>\<open>exp\<close>
  that is not later than the current time in seconds, \<^verbatim>\<open>isTokenValid\<close> returns false, and so
  does \<^verbatim>\<open>isAuthenticated\<close> for a storage that holds this token.
\<close>

theorem expired_token_rejected:
  assumes "decodePayload token = Inr payload"
    and "payload_exp payload = Inr (Some (JNumber e))"
    and "e \<le> of_int (clock div 1000)"
  shows "isTokenValid coerced clock token = Inr False \<and>
         (getAuthToken st = Some token \<longrightarrow> isAuthenticated coerced clock st = Inr False)"
proof -
  have invalid: "isTokenValid coerced clock token = Inr False"
    using assms by (simp add: isTokenValid_def isTokenValid_try_def greaterThan_def Let_def)
  then show ?thesis
    by (simp add: isAuthenticated_needs_valid_token)
qed

theorem expired_token_rejected_witness:
  "isTokenValid coerced_never 1700000000000 expired_token = Inr False \<and>
   isAuthenticated coerced_never 1700000000000 (storage_with expired_token (JSON_stringify driver))
     = Inr False"
proof -
  have h2: "payload_exp (JObject [(js ''exp'', JNumber 1600000000)]) = Inr (Some (JNumber 1600000000))"
    by (simp add: payload_exp_def js_def)
  have h3: "(1600000000::real) \<le> of_int (1700000000000 div 1000)"
    by simp
  show ?thesis
    using expired_token_rejected [OF expired_payload h2 h3, of coerced_never
        "storage_with expired_token (JSON_stringify driver)"]
    by (simp add: stored_token)
qed




text \<open>The same check accepts a token whose second part needs no padding.\<close>

lemma unpadded_token_accepted:
  "isTokenValid coerced_never 1700000000000 unpadded_token = Inr True"
  by (simp add: isTokenValid_def isTokenValid_try_def unpadded_payload payload_exp_def
      greaterThan_def js_def)

text \<open>
  Claim C5: after a successful login, \<^verbatim>\<open>isAuthenticated\<close> returns true as long as the
  \<^verbatim>\<open>exp\<close> of the token is in the future. The server accepts the login and answers with a
  token that expires in 2100; \<^verbatim>\<open>login\<close> returns the user and stores the token and the user
  data, and \<^verbatim>\<open>getUserData\<close> reads an object back. The second part of the token has 38
  characters, so \<^verbatim>\<open>base64Decode\<close> pads it and decodes the closing brace of the payload to
  three code units 255; \<^verbatim>\<open>JSON.parse\<close> throws, and \<^verbatim>\<open>isAuthenticated\<close> returns false in 2023.
\<close>

theorem login_then_not_authenticated:
  "fst (login (server_accepts driver) credentials empty_storage) = Inr driver \<and>
   getAuthToken logged_in = Some padded_token \<and>
   truthy (getUserData logged_in) \<and>
   base64Decode (js ''eyJleHAiOjQxMDI0NDQ4MDAsInN1YiI6IjcifQ'') =
     js ''{\"exp\":4102444800,\"sub\":\"7\"'' @ [255, 255, 255] \<and>
   isAuthenticated coerced_never 1700000000000 logged_in = Inr False"
proof -
  have returned: "fst (login (server_accepts driver) credentials empty_storage) = Inr driver"
    by (simp add: login_def server_accepts_def storeAuthData_def multiSet_def empty_storage_def)
  have token: "getAuthToken logged_in = Some padded_token"
    by (simp add: logged_in_storage stored_token)
  have user: "getUserData logged_in =
      JObject [(js ''companies'', JString (js ''Acme'')), (js ''role'', JString (js ''DRIVER'')),
        (js ''jwt'', JString padded_token), (js ''name'', JString (js ''Ana'')),
        (js ''id'', JString (js ''7'')), (js ''companiesId'', JString (js ''1''))]"
    by (simp add: logged_in_storage getUserData_def getItem_def storage_with_def driver_text
        driver_parsed) (simp add: js_def)
  have decoded: "base64Decode (js ''eyJleHAiOjQxMDI0NDQ4MDAsInN1YiI6IjcifQ'') =
      js ''{\"exp\":4102444800,\"sub\":\"7\"'' @ [255, 255, 255]"
    by (simp add: decode_simps)
  have invalid: "isTokenValid coerced_never 1700000000000 padded_token = Inr False"
    by (simp add: isTokenValid_def isTokenValid_try_def padded_payload)
  have rejected: "isAuthenticated coerced_never 1700000000000 logged_in = Inr False"
    using token invalid by (rule isAuthenticated_needs_valid_token)
  from returned token user decoded rejected show ?thesis
    by (simp add: truthy_def)
qed

end
